theory Spec2Isabelle
  imports Main "HOL-Library.Sublist"
begin

section \<open>Kivy Voice Notes: a model of \<^verbatim>\<open>kivy_voice_notes.py\<close>\<close>

text \<open>
  The application object \<^verbatim>\<open>VoiceNotesKivy\<close> is a record of the attributes that
  \<^verbatim>\<open>build\<close> creates. Every handler of the class is a function from the record to
  the updated record. What the handlers ask of the outside world (a new engine, the
  outcome of a playback, the outcome of a write) is an argument of the function, so
  that every branch of the source, the \<^verbatim>\<open>except\<close> branches included, is a branch of
  the model.

  Strings are lists of \<^typ>\<open>char\<close>, read as the code points below 256; code points
  above that are not represented.
\<close>

subsection \<open>Python string operations\<close>

text \<open>\<^verbatim>\<open>str.isspace\<close> on one character, for the code points below 256.\<close>

definition isspace :: "char \<Rightarrow> bool" where
  "isspace c = ((of_char c :: nat) \<in> {9, 10, 11, 12, 13, 28, 29, 30, 31, 32, 133, 160})"

text \<open>\<^verbatim>\<open>s.strip()\<close>: leading and trailing whitespace removed.\<close>

definition strip :: "string \<Rightarrow> string" where
  "strip s = rev (dropWhile isspace (rev (dropWhile isspace s)))"

text \<open>\<^verbatim>\<open>s.endswith(suf)\<close>.\<close>

definition endswith :: "string \<Rightarrow> string \<Rightarrow> bool" where
  "endswith s suf = (length suf \<le> length s \<and> drop (length s - length suf) s = suf)"

subsection \<open>The application state\<close>

datatype engine = Engine
datatype recog = Recognizer

text \<open>A callback handed to \<^verbatim>\<open>Clock.schedule_once(..., 0)\<close>: it runs on the UI thread
  at the next frame.\<close>

datatype clock_event = SetStatus string | UpdateButtons

text \<open>Where a thread running \<^verbatim>\<open>_tts_worker\<close> stands: at the loop test, blocked in
  \<^verbatim>\<open>tts_queue.get(timeout=0.2)\<close>, blocked in \<^verbatim>\<open>runAndWait()\<close> for a text, or returned.\<close>

datatype tts_pc = TtsLoopHead | TtsWaiting | TtsPlaying string | TtsDone

text \<open>Where a thread running \<^verbatim>\<open>_listen_loop\<close> stands: before the microphone is
  opened, at the loop test, blocked in \<^verbatim>\<open>listen\<close>, blocked in \<^verbatim>\<open>recognize_google\<close>,
  or returned.\<close>

datatype listen_pc = LsOpening | LsLoopHead | LsCapturing | LsRecognizing | LsDone

text \<open>The calls into the speech engine, in the order they are made: thread \<open>i\<close> enters
  \<^verbatim>\<open>say(text); runAndWait()\<close>, thread \<open>i\<close> leaves it.\<close>

datatype play_event = PlayStart nat string | PlayEnd nat

record app =
  sr_mod :: bool
  pyttsx3_mod :: bool
  notes_dir :: "string \<times> string list"
  recognizer :: "recog option"
  is_listening :: bool
  listen_stop_event :: bool
  results_queue :: "string list"
  tts_engine :: "engine option"
  is_speaking :: bool
  tts_thread :: "nat option"
  tts_queue :: "string list"
  tts_stop_event :: bool
  text_area :: string
  status_label :: string
  btn_record_disabled :: bool
  btn_stop_disabled :: bool
  btn_speak_disabled :: bool
  btn_save_disabled :: bool
  btn_load_disabled :: bool
  btn_new_disabled :: bool
  scheduled :: "clock_event list"
  popups :: "(string \<times> string) list"
  listen_threads :: "listen_pc list"
  tts_threads :: "tts_pc list"
  files :: "((string \<times> string list) \<times> string) list"
  playback_log :: "play_event list"

text \<open>
  \<open>sr_mod\<close> and \<open>pyttsx3_mod\<close> say whether the two optional modules were imported.
  \<open>tts_thread\<close> is the index in \<open>tts_threads\<close> of the thread object the attribute
  refers to; \<open>tts_threads\<close> and \<open>listen_threads\<close> hold every thread ever started.
  \<open>notes_dir\<close> is a path, see \<open>parse_path\<close> below. \<open>files\<close> is the file system, a
  list of paths with their contents, the latest write first. \<open>scheduled\<close> holds the pending
  clock callbacks, \<open>popups\<close> the error dialogs opened so far.
\<close>

subsection \<open>Internals\<close>

definition update_buttons :: "app \<Rightarrow> app" where
  "update_buttons s =
     (let speaking_or_queued = (is_speaking s \<or> tts_queue s \<noteq> [])
      in s\<lparr>btn_record_disabled := is_listening s,
            btn_speak_disabled := is_listening s,
            btn_stop_disabled := \<not> (is_listening s \<or> speaking_or_queued),
            btn_save_disabled := False,
            btn_load_disabled := False,
            btn_new_disabled := False\<rparr>)"

definition set_status :: "string \<Rightarrow> app \<Rightarrow> app" where
  "set_status text s = s\<lparr>scheduled := scheduled s @ [SetStatus text]\<rparr>"

definition schedule_update_buttons :: "app \<Rightarrow> app" where
  "schedule_update_buttons s = s\<lparr>scheduled := scheduled s @ [UpdateButtons]\<rparr>"

definition error_popup :: "string \<Rightarrow> string \<Rightarrow> app \<Rightarrow> app" where
  "error_popup title msg s = s\<lparr>popups := popups s @ [(title, msg)]\<rparr>"

text \<open>One frame of the UI loop runs the pending clock callbacks in the order they were
  scheduled.\<close>

fun run_event :: "clock_event \<Rightarrow> app \<Rightarrow> app" where
  "run_event (SetStatus text) s = s\<lparr>status_label := text\<rparr>"
| "run_event UpdateButtons s = update_buttons s"

definition frame :: "app \<Rightarrow> app" where
  "frame s = fold run_event (scheduled s) (s\<lparr>scheduled := []\<rparr>)"

text \<open>\<^verbatim>\<open>_process_results_queue\<close>: the loop takes one chunk with \<^verbatim>\<open>get_nowait\<close> and
  leaves when the queue is empty. The first argument is the queue, the second the text
  of the text area.\<close>

fun drain_results :: "string list \<Rightarrow> string \<Rightarrow> string" where
  "drain_results [] text = text"
| "drain_results (chunk # rest) text =
     (if chunk \<noteq> []
      then drain_results rest
             (text @ (if \<not> endswith chunk '' '' then chunk @ '' '' else chunk))
      else drain_results rest text)"

definition process_results_queue :: "app \<Rightarrow> app" where
  "process_results_queue s =
     s\<lparr>text_area := drain_results (results_queue s) (text_area s), results_queue := []\<rparr>"

text \<open>\<^verbatim>\<open>_clear_tts_queue\<close>: the loop takes one item with \<^verbatim>\<open>get_nowait\<close> and drops it.
  \<^verbatim>\<open>task_done\<close> only counts for \<^verbatim>\<open>Queue.join\<close>, which the program never calls; each
  call follows a successful \<^verbatim>\<open>get\<close>, so it does not raise.\<close>

fun clear_loop :: "string list \<Rightarrow> string list" where
  "clear_loop [] = []"
| "clear_loop (item # rest) = clear_loop rest"

definition clear_tts_queue :: "app \<Rightarrow> app" where
  "clear_tts_queue s = s\<lparr>tts_queue := clear_loop (tts_queue s)\<rparr>"

subsection \<open>Building the application\<close>

text \<open>\<^verbatim>\<open>build\<close>, given whether the two modules were imported and the path of the notes
  directory.\<close>

definition build :: "bool \<Rightarrow> bool \<Rightarrow> string \<times> string list \<Rightarrow> app" where
  "build sr pyttsx3 dir =
     update_buttons
       \<lparr>sr_mod = sr, pyttsx3_mod = pyttsx3, notes_dir = dir,
        recognizer = (if sr then Some Recognizer else None),
        is_listening = False, listen_stop_event = False, results_queue = [],
        tts_engine = (if pyttsx3 then Some Engine else None),
        is_speaking = False, tts_thread = None, tts_queue = [], tts_stop_event = False,
        text_area = [], status_label = ''Ready'',
        btn_record_disabled = False, btn_stop_disabled = False,
        btn_speak_disabled = False, btn_save_disabled = False,
        btn_load_disabled = False, btn_new_disabled = False,
        scheduled = [], popups = [], listen_threads = [], tts_threads = [],
        files = [], playback_log = []\<rparr>"

subsection \<open>Button handlers\<close>

definition on_record :: "app \<Rightarrow> app" where
  "on_record s =
     (if is_listening s then s
      else if recognizer s = None \<or> \<not> sr_mod s
      then error_popup ''Missing Dependency''
             ''speech_recognition is not available. Please install it.'' s
      else
        (let s1 = s\<lparr>is_listening := True, listen_stop_event := False\<rparr>;
             s2 = update_buttons (set_status ''Listening...'' s1)
         in s2\<lparr>listen_threads := listen_threads s2 @ [LsOpening]\<rparr>))"

text \<open>\<^verbatim>\<open>on_stop_button\<close>. The call \<^verbatim>\<open>tts_engine.stop()\<close> asks the engine to abandon the
  playback in flight; an exception it raises is swallowed. When the playback returns is
  decided by the engine, see \<open>tts_finished\<close> below.\<close>

definition on_stop_button :: "app \<Rightarrow> app" where
  "on_stop_button s =
     (let s1 = (if is_listening s
                then set_status ''Stopping listening...'' (s\<lparr>listen_stop_event := True\<rparr>)
                else s);
          speaking_or_queued = (is_speaking s1 \<or> tts_queue s1 \<noteq> []);
          s2 = (if speaking_or_queued \<and> tts_engine s1 \<noteq> None
                then set_status ''Stopped.''
                       ((clear_tts_queue (s1\<lparr>tts_stop_event := True\<rparr>))
                          \<lparr>tts_engine := None, tts_thread := None, is_speaking := False\<rparr>)
                else s1);
          s3 = (if \<not> is_listening s2 \<and> \<not> speaking_or_queued
                then set_status ''Nothing to stop.'' s2
                else s2)
      in update_buttons s3)"

text \<open>The outcome of \<^verbatim>\<open>pyttsx3.init()\<close>: an engine, or an exception with its text.\<close>

datatype init_result = InitOk | InitFails string

text \<open>\<^verbatim>\<open>Thread.is_alive()\<close> of the thread \<open>tts_thread\<close> refers to.\<close>

definition tts_thread_alive :: "app \<Rightarrow> bool" where
  "tts_thread_alive s =
     (case tts_thread s of
        None \<Rightarrow> False
      | Some i \<Rightarrow> i < length (tts_threads s) \<and> tts_threads s ! i \<noteq> TtsDone)"

definition on_speak :: "init_result \<Rightarrow> app \<Rightarrow> app" where
  "on_speak r s =
     (if \<not> pyttsx3_mod s
      then error_popup ''Missing Dependency'' ''pyttsx3 is not available. Please install it.'' s
      else
        (case (if tts_engine s = None
               then (case r of InitOk \<Rightarrow> Inr (s\<lparr>tts_engine := Some Engine\<rparr>)
                             | InitFails e \<Rightarrow> Inl e)
               else Inr s) of
           Inl e \<Rightarrow> error_popup ''TTS Error'' (''Engine init failed: '' @ e) s
         | Inr s1 \<Rightarrow>
             (let text = strip (text_area s1)
              in if text = [] then set_status ''Nothing to speak.'' s1
                 else
                   (let s2 = set_status ''Queued for speaking...''
                               (s1\<lparr>tts_queue := tts_queue s1 @ [text]\<rparr>);
                        s3 = (if tts_thread s2 = None \<or> \<not> tts_thread_alive s2
                              then s2\<lparr>tts_stop_event := False,
                                      tts_thread := Some (length (tts_threads s2)),
                                      tts_threads := tts_threads s2 @ [TtsLoopHead]\<rparr>
                              else s2)
                    in update_buttons s3))))"

definition on_new :: "app \<Rightarrow> app" where
  "on_new s = set_status ''Cleared.'' (s\<lparr>text_area := []\<rparr>)"


subsection \<open>The speech worker\<close>

text \<open>
  \<^verbatim>\<open>_tts_worker\<close> runs on its own thread. Thread \<open>i\<close> advances by one of four steps;
  between two steps any other thread may run. Each step is a stretch of the loop body
  that the thread can execute without being interrupted, so every sequence of steps of
  the model is an execution of the program.
\<close>

definition set_tts_pc :: "nat \<Rightarrow> tts_pc \<Rightarrow> app \<Rightarrow> app" where
  "set_tts_pc i pc s = s\<lparr>tts_threads := (tts_threads s)[i := pc]\<rparr>"

definition tts_at :: "nat \<Rightarrow> tts_pc \<Rightarrow> app \<Rightarrow> bool" where
  "tts_at i pc s = (i < length (tts_threads s) \<and> tts_threads s ! i = pc)"

text \<open>The loop test \<^verbatim>\<open>while not self.tts_stop_event.is_set()\<close>; when the event is set,
  the three lines after the loop run and the thread returns.\<close>

definition tts_check :: "nat \<Rightarrow> app \<Rightarrow> app option" where
  "tts_check i s =
     (if tts_at i TtsLoopHead s
      then Some (if tts_stop_event s
                 then set_tts_pc i TtsDone
                        (schedule_update_buttons (set_status ''Ready'' (s\<lparr>is_speaking := False\<rparr>)))
                 else set_tts_pc i TtsWaiting s)
      else None)"

text \<open>\<^verbatim>\<open>get(timeout=0.2)\<close> raises \<^verbatim>\<open>queue.Empty\<close>: possible only while the queue is
  empty. The thread goes back to the loop test.\<close>

definition tts_timeout :: "nat \<Rightarrow> app \<Rightarrow> app option" where
  "tts_timeout i s =
     (if tts_at i TtsWaiting s \<and> tts_queue s = []
      then Some (set_tts_pc i TtsLoopHead
                   (if is_speaking s
                    then schedule_update_buttons (set_status ''Ready'' (s\<lparr>is_speaking := False\<rparr>))
                    else s))
      else None)"

text \<open>\<^verbatim>\<open>get(timeout=0.2)\<close> returns the head of the queue; the body runs up to the call of
  \<^verbatim>\<open>say(text); runAndWait()\<close>, where the thread blocks, or to a \<^verbatim>\<open>continue\<close>.\<close>

definition tts_got :: "nat \<Rightarrow> init_result \<Rightarrow> app \<Rightarrow> app option" where
  "tts_got i r s =
     (if tts_at i TtsWaiting s
      then (case tts_queue s of
              [] \<Rightarrow> None
            | text # rest \<Rightarrow>
                (let s1 = s\<lparr>tts_queue := rest\<rparr>
                 in if text = [] then Some (set_tts_pc i TtsLoopHead s1)
                    else
                      (case (if tts_engine s1 = None \<and> pyttsx3_mod s1
                             then (case r of InitOk \<Rightarrow> Inr (s1\<lparr>tts_engine := Some Engine\<rparr>)
                                           | InitFails e \<Rightarrow> Inl e)
                             else Inr s1) of
                         Inl e \<Rightarrow>
                           Some (set_tts_pc i TtsLoopHead
                                   (error_popup ''TTS Error'' (''Engine init failed: '' @ e) s1))
                       | Inr s2 \<Rightarrow>
                           if tts_engine s2 = None then Some (set_tts_pc i TtsLoopHead s2)
                           else
                             (let s3 = schedule_update_buttons
                                         (set_status ''Speaking...'' (s2\<lparr>is_speaking := True\<rparr>))
                              in Some (set_tts_pc i (TtsPlaying text)
                                         (s3\<lparr>playback_log :=
                                               playback_log s3 @ [PlayStart i text]\<rparr>))))))
      else None)"

text \<open>\<^verbatim>\<open>runAndWait()\<close> returns, or raises an exception with its text.\<close>

datatype play_result = PlayOk | PlayFails string

definition tts_finished :: "nat \<Rightarrow> play_result \<Rightarrow> app \<Rightarrow> app option" where
  "tts_finished i r s =
     (if i < length (tts_threads s)
      then (case tts_threads s ! i of
              TtsPlaying text \<Rightarrow>
                (let s1 = s\<lparr>playback_log := playback_log s @ [PlayEnd i]\<rparr>
                 in Some (set_tts_pc i TtsLoopHead
                            (case r of
                               PlayOk \<Rightarrow> s1
                             | PlayFails e \<Rightarrow>
                                 (set_status ''TTS error.'' (error_popup ''TTS Error'' e s1))
                                   \<lparr>tts_engine := None\<rparr>)))
            | _ \<Rightarrow> None)
      else None)"

subsection \<open>The capture worker\<close>

text \<open>The \<^verbatim>\<open>finally\<close> block of \<^verbatim>\<open>_listen_loop\<close>.\<close>

definition listen_finally :: "nat \<Rightarrow> app \<Rightarrow> app" where
  "listen_finally i s =
     (let s1 = schedule_update_buttons
                 (set_status ''Ready'' (s\<lparr>is_listening := False, listen_stop_event := False\<rparr>))
      in s1\<lparr>listen_threads := (listen_threads s1)[i := LsDone]\<rparr>)"

text \<open>An exception that reaches the two outer handlers: an \<^verbatim>\<open>OSError\<close> or any other.\<close>

datatype listen_error = OSError string | OtherError string

definition listen_abort :: "nat \<Rightarrow> listen_error \<Rightarrow> app \<Rightarrow> app" where
  "listen_abort i e s =
     listen_finally i
       (case e of
          OSError m \<Rightarrow> set_status ''Microphone error.'' (error_popup ''Microphone Error'' m s)
        | OtherError m \<Rightarrow> set_status ''Listening error.'' (error_popup ''Listening Error'' m s))"

definition listen_at :: "nat \<Rightarrow> listen_pc \<Rightarrow> app \<Rightarrow> bool" where
  "listen_at i pc s = (i < length (listen_threads s) \<and> listen_threads s ! i = pc)"

definition set_listen_pc :: "nat \<Rightarrow> listen_pc \<Rightarrow> app \<Rightarrow> app" where
  "set_listen_pc i pc s = s\<lparr>listen_threads := (listen_threads s)[i := pc]\<rparr>"

text \<open>Opening the microphone and calibrating: succeeds (\<open>None\<close>) or raises.\<close>

definition listen_open :: "nat \<Rightarrow> listen_error option \<Rightarrow> app \<Rightarrow> app option" where
  "listen_open i r s =
     (if listen_at i LsOpening s
      then Some (case r of None \<Rightarrow> set_listen_pc i LsLoopHead s
                         | Some e \<Rightarrow> listen_abort i e s)
      else None)"

definition listen_check :: "nat \<Rightarrow> app \<Rightarrow> app option" where
  "listen_check i s =
     (if listen_at i LsLoopHead s
      then Some (if listen_stop_event s then listen_finally i s
                 else set_listen_pc i LsCapturing s)
      else None)"

text \<open>\<^verbatim>\<open>recognizer.listen\<close>: an audio segment, \<^verbatim>\<open>WaitTimeoutError\<close>, or another
  exception.\<close>

datatype capture_result = Audio | WaitTimeout | CaptureFails listen_error

definition listen_capture :: "nat \<Rightarrow> capture_result \<Rightarrow> app \<Rightarrow> app option" where
  "listen_capture i r s =
     (if listen_at i LsCapturing s
      then Some (case r of
                   Audio \<Rightarrow> set_listen_pc i LsRecognizing s
                 | WaitTimeout \<Rightarrow> set_listen_pc i LsLoopHead s
                 | CaptureFails e \<Rightarrow> listen_abort i e s)
      else None)"

text \<open>\<^verbatim>\<open>recognize_google\<close>: a text, \<^verbatim>\<open>UnknownValueError\<close>, \<^verbatim>\<open>RequestError\<close> with its
  text, or another exception.\<close>

datatype recognize_result =
  Recognized string | UnknownValue | RequestError string | RecognizeFails listen_error

definition listen_recognize :: "nat \<Rightarrow> recognize_result \<Rightarrow> app \<Rightarrow> app option" where
  "listen_recognize i r s =
     (if listen_at i LsRecognizing s
      then Some (case r of
                   Recognized text \<Rightarrow>
                     set_listen_pc i LsLoopHead
                       (set_status ''Recognized.'' (s\<lparr>results_queue := results_queue s @ [text]\<rparr>))
                 | UnknownValue \<Rightarrow>
                     set_listen_pc i LsLoopHead (set_status ''Could not understand audio.'' s)
                 | RequestError m \<Rightarrow>
                     set_listen_pc i LsLoopHead (set_status (''ASR service error: '' @ m) s)
                 | RecognizeFails e \<Rightarrow> listen_abort i e s)
      else None)"

subsection \<open>Saving\<close>

text \<open>
  A path is pathlib's pair of a root (\<open>''/''\<close>, \<open>''//''\<close> or empty) and the list of
  its parts, in the POSIX flavour. \<open>split_on\<close> is \<^verbatim>\<open>str.split(sep)\<close>; empty parts and
  \<^verbatim>\<open>.\<close> parts are dropped when a path is parsed.
\<close>

fun split_acc :: "char \<Rightarrow> string \<Rightarrow> string \<Rightarrow> string list" where
  "split_acc c acc [] = [rev acc]"
| "split_acc c acc (x # xs) =
     (if x = c then rev acc # split_acc c [] xs else split_acc c (x # acc) xs)"

definition split_on :: "char \<Rightarrow> string \<Rightarrow> string list" where
  "split_on c s = split_acc c [] s"

definition path_root :: "string \<Rightarrow> string" where
  "path_root name =
     (if take 2 name = ''//'' \<and> take 3 name \<noteq> ''///'' then ''//''
      else if take 1 name = ''/'' then ''/''
      else [])"

definition parse_path :: "string \<Rightarrow> string \<times> string list" where
  "parse_path name =
     (path_root name, filter (\<lambda>p. p \<noteq> [] \<and> p \<noteq> ''.'') (split_on CHR ''/'' name))"

text \<open>\<^verbatim>\<open>p / name\<close>: a name with a root replaces \<open>p\<close>, any other is appended to it.\<close>

definition path_join :: "string \<times> string list \<Rightarrow> string \<Rightarrow> string \<times> string list" where
  "path_join p name =
     (let q = parse_path name
      in if fst q \<noteq> [] then q else (fst p, snd p @ snd q))"

fun join_parts :: "string list \<Rightarrow> string" where
  "join_parts [] = []"
| "join_parts [p] = p"
| "join_parts (p # q # ps) = p @ ''/'' @ join_parts (q # ps)"

definition path_str :: "string \<times> string list \<Rightarrow> string" where
  "path_str p = (if fst p = [] \<and> snd p = [] then ''.'' else fst p @ join_parts (snd p))"

text \<open>\<^verbatim>\<open>on_save\<close> builds the default name from the formatted time \<open>ts\<close> and opens the
  dialog, whose input field holds that name until the user edits it.\<close>

definition default_name :: "string \<Rightarrow> string" where
  "default_name ts = ''note_'' @ ts @ ''.txt''"

text \<open>The first two lines of \<^verbatim>\<open>do_save\<close>: \<open>dflt\<close> is the default name, \<open>entered\<close>
  the text of the input field.\<close>

definition save_name :: "string \<Rightarrow> string \<Rightarrow> string" where
  "save_name dflt entered =
     (let name = (if strip entered \<noteq> [] then strip entered else dflt)
      in if \<not> endswith name ''.txt'' then name @ ''.txt'' else name)"

datatype write_result = WriteOk | WriteFails string

definition do_save :: "string \<Rightarrow> string \<Rightarrow> write_result \<Rightarrow> app \<Rightarrow> app" where
  "do_save dflt entered w s =
     (let path = path_join (notes_dir s) (save_name dflt entered)
      in case w of
           WriteOk \<Rightarrow>
             set_status (''Saved to '' @ path_str path) (s\<lparr>files := (path, text_area s) # files s\<rparr>)
         | WriteFails e \<Rightarrow> error_popup ''Save Error'' e s)"

text \<open>
  \<^verbatim>\<open>on_save\<close>, with what follows the press of Save: creating the directory or the dialog
  raises, and the handler's \<^verbatim>\<open>except\<close> branch reports it; or the dialog opens and the
  user cancels it; or the user confirms it with the text \<open>entered\<close>, and \<^verbatim>\<open>do_save\<close>
  runs with the outcome of the write. Opening the dialog changes nothing in the
  application state.
\<close>

datatype save_outcome =
  SaveRaises string | DialogCancelled | DialogConfirmed string write_result

definition on_save :: "string \<Rightarrow> save_outcome \<Rightarrow> app \<Rightarrow> app" where
  "on_save ts r s =
     (case r of
        SaveRaises e \<Rightarrow> set_status ''Save failed.'' (error_popup ''Save Error'' e s)
      | DialogCancelled \<Rightarrow> s
      | DialogConfirmed entered w \<Rightarrow> do_save (default_name ts) entered w s)"

subsection \<open>Executions\<close>

text \<open>
  One step of the whole program: the user presses a button that is enabled, or edits
  the text, the UI loop runs a frame or a tick of the poller, or one of the worker
  threads advances. A step that is not possible in a state yields \<open>None\<close>.
\<close>

datatype action =
    Record | Stop | Speak init_result | New | Edit string
  | Save string save_outcome
  | Frame | Tick
  | TtsCheck nat | TtsTimeout nat | TtsGot nat init_result | TtsFinished nat play_result
  | ListenOpen nat "listen_error option" | ListenCheck nat
  | ListenCapture nat capture_result | ListenRecognize nat recognize_result

fun exec :: "action \<Rightarrow> app \<Rightarrow> app option" where
  "exec Record s = (if btn_record_disabled s then None else Some (on_record s))"
| "exec Stop s = (if btn_stop_disabled s then None else Some (on_stop_button s))"
| "exec (Speak r) s = (if btn_speak_disabled s then None else Some (on_speak r s))"
| "exec New s = (if btn_new_disabled s then None else Some (on_new s))"
| "exec (Edit text) s = Some (s\<lparr>text_area := text\<rparr>)"
| "exec (Save ts r) s = (if btn_save_disabled s then None else Some (on_save ts r s))"
| "exec Frame s = Some (frame s)"
| "exec Tick s = Some (process_results_queue s)"
| "exec (TtsCheck i) s = tts_check i s"
| "exec (TtsTimeout i) s = tts_timeout i s"
| "exec (TtsGot i r) s = tts_got i r s"
| "exec (TtsFinished i r) s = tts_finished i r s"
| "exec (ListenOpen i r) s = listen_open i r s"
| "exec (ListenCheck i) s = listen_check i s"
| "exec (ListenCapture i r) s = listen_capture i r s"
| "exec (ListenRecognize i r) s = listen_recognize i r s"

fun run :: "action list \<Rightarrow> app \<Rightarrow> app option" where
  "run [] s = Some s"
| "run (a # as) s = (case exec a s of None \<Rightarrow> None | Some s' \<Rightarrow> run as s')"

text \<open>The threads running \<^verbatim>\<open>_tts_worker\<close> that have not returned, and those inside a
  playback call.\<close>

definition live_workers :: "app \<Rightarrow> nat" where
  "live_workers s = length (filter (\<lambda>pc. pc \<noteq> TtsDone) (tts_threads s))"

fun is_playing :: "tts_pc \<Rightarrow> bool" where
  "is_playing (TtsPlaying text) = True"
| "is_playing _ = False"

definition playing_workers :: "app \<Rightarrow> nat" where
  "playing_workers s = length (filter is_playing (tts_threads s))"

text \<open>The spec's wording \<^emph>\<open>ends with exactly one trailing space\<close>: the last character is a
  space and the one before it, if any, is not.\<close>

definition single_space_terminated :: "string \<Rightarrow> bool" where
  "single_space_terminated t = (endswith t '' '' \<and> \<not> endswith t ''  '')"

text \<open>The state of the speech worker as \<^verbatim>\<open>on_speak\<close> keeps it: the stop event is clear,
  and either no thread was ever started, or one was, it has not returned, and
  \<open>tts_thread\<close> refers to it.\<close>

definition single_worker :: "app \<Rightarrow> bool" where
  "single_worker s =
     (\<not> tts_stop_event s \<and>
      ((tts_threads s = [] \<and> tts_thread s = None) \<or>
       (length (tts_threads s) = 1 \<and> tts_threads s ! 0 \<noteq> TtsDone \<and> tts_thread s = Some 0)))"

section \<open>Properties\<close>

subsection \<open>Auxiliary facts\<close>

lemma clear_loop_Nil: "clear_loop q = []"
  by (induction q) simp_all

lemma frame_last_status:
  "scheduled s = es @ [SetStatus t] \<Longrightarrow> status_label (frame s) = t"
  by (simp add: frame_def)

lemma strip_blank: "(strip t = []) = (\<forall>c\<in>set t. isspace c)"
proof
  assume "strip t = []"
  then have a: "\<forall>x\<in>set (dropWhile isspace t). isspace x"
    by (simp add: strip_def dropWhile_eq_Nil_conv)
  show "\<forall>c\<in>set t. isspace c"
  proof (cases "dropWhile isspace t")
    case Nil
    then show ?thesis by (simp add: dropWhile_eq_Nil_conv)
  next
    case (Cons x xs)
    then have "\<not> isspace x" using hd_dropWhile [of isspace t] by simp
    moreover have "x \<in> set (dropWhile isspace t)" using Cons by simp
    ultimately show ?thesis using a by blast
  qed
next
  assume "\<forall>c\<in>set t. isspace c"
  then show "strip t = []"
    by (auto simp: strip_def dropWhile_eq_Nil_conv dest: set_dropWhileD)
qed

lemma drain_results_skip_empty:
  "drain_results (xs @ [] # ys) acc = drain_results (xs @ ys) acc"
  by (induction xs arbitrary: acc) simp_all

lemma drain_results_concat:
  "drain_results q acc =
     acc @ concat (map (\<lambda>c. if c = [] \<or> endswith c '' '' then c else c @ '' '') q)"
  by (induction q arbitrary: acc) simp_all

lemma single_space_after:
  "\<not> endswith c '' '' \<Longrightarrow> single_space_terminated (c @ '' '')"
proof (cases c rule: rev_cases)
  case Nil
  then show ?thesis by (simp add: single_space_terminated_def endswith_def)
next
  case (snoc ys y)
  assume "\<not> endswith c '' ''"
  with snoc have "y \<noteq> CHR '' ''" by (simp add: endswith_def)
  with snoc show ?thesis by (simp add: single_space_terminated_def endswith_def)
qed

subsection \<open>The global stop\<close>

text \<open>
  Where the engine handle is present, \<open>on_stop_button\<close> in a state that is speaking or
  has queued utterances leaves the queue empty, clears \<open>is_speaking\<close>, sets the worker's
  stop event, drops the engine handle and the thread handle, and the last status it
  schedules, hence the status shown after the next frame, is \<^verbatim>\<open>Stopped.\<close>.
\<close>

lemma stop_with_engine:
  assumes "is_speaking s \<or> tts_queue s \<noteq> []" and "tts_engine s \<noteq> None"
  shows "tts_queue (on_stop_button s) = [] \<and>
         is_speaking (on_stop_button s) = False \<and>
         tts_engine (on_stop_button s) = None \<and>
         tts_thread (on_stop_button s) = None \<and>
         tts_stop_event (on_stop_button s) = True \<and>
         scheduled (on_stop_button s) =
           scheduled s @ (if is_listening s then [SetStatus ''Stopping listening...''] else [])
             @ [SetStatus ''Stopped.''] \<and>
         status_label (frame (on_stop_button s)) = ''Stopped.''"
proof -
  have sch: "scheduled (on_stop_button s) =
      (scheduled s @ (if is_listening s then [SetStatus ''Stopping listening...''] else []))
        @ [SetStatus ''Stopped.'']"
    using assms
    by (auto simp: on_stop_button_def Let_def set_status_def clear_tts_queue_def
          update_buttons_def)
  have rest: "tts_queue (on_stop_button s) = [] \<and>
         is_speaking (on_stop_button s) = False \<and>
         tts_engine (on_stop_button s) = None \<and>
         tts_thread (on_stop_button s) = None \<and>
         tts_stop_event (on_stop_button s) = True"
    using assms
    by (auto simp: on_stop_button_def Let_def set_status_def clear_tts_queue_def
          update_buttons_def clear_loop_Nil)
  from frame_last_status [OF sch] sch rest show ?thesis by simp
qed

text \<open>
  Claim C2. The claim says that stop, in every state that is speaking or has queued
  utterances, empties the queue, goes idle, drops the engine and reports \<^verbatim>\<open>Stopped.\<close>.
  The code breaks it where the engine handle is absent. Two texts are queued, the worker
  takes the first, and its playback raises, which drops the engine handle while
  \<open>is_speaking\<close> is still set and the second text is still queued. The Stop button is
  enabled, since \<open>update_buttons\<close> does not look at the engine. Stop, pressed now,
  leaves the queue and \<open>is_speaking\<close> as they are, leaves the stop event clear and
  schedules no status: the last status is still the worker's \<^verbatim>\<open>TTS error.\<close>. The worker
  then takes the second text, creates the engine again and plays it.
\<close>

theorem stop_ignored_engine_absent:
  "map_option is_speaking
     (run [Edit ''one'', Speak InitOk, Edit ''two'', Speak InitOk, TtsCheck 0, TtsGot 0 InitOk,
           TtsFinished 0 (PlayFails ''boom'')] (build True True ([], []))) = Some True \<and>
   map_option tts_queue
     (run [Edit ''one'', Speak InitOk, Edit ''two'', Speak InitOk, TtsCheck 0, TtsGot 0 InitOk,
           TtsFinished 0 (PlayFails ''boom'')] (build True True ([], []))) = Some [''two''] \<and>
   map_option tts_engine
     (run [Edit ''one'', Speak InitOk, Edit ''two'', Speak InitOk, TtsCheck 0, TtsGot 0 InitOk,
           TtsFinished 0 (PlayFails ''boom'')] (build True True ([], []))) = Some None \<and>
   map_option btn_stop_disabled
     (run [Edit ''one'', Speak InitOk, Edit ''two'', Speak InitOk, TtsCheck 0, TtsGot 0 InitOk,
           TtsFinished 0 (PlayFails ''boom'')] (build True True ([], []))) = Some False \<and>
   map_option tts_queue
     (run [Edit ''one'', Speak InitOk, Edit ''two'', Speak InitOk, TtsCheck 0, TtsGot 0 InitOk,
           TtsFinished 0 (PlayFails ''boom''), Stop] (build True True ([], []))) = Some [''two''] \<and>
   map_option is_speaking
     (run [Edit ''one'', Speak InitOk, Edit ''two'', Speak InitOk, TtsCheck 0, TtsGot 0 InitOk,
           TtsFinished 0 (PlayFails ''boom''), Stop] (build True True ([], []))) = Some True \<and>
   map_option tts_stop_event
     (run [Edit ''one'', Speak InitOk, Edit ''two'', Speak InitOk, TtsCheck 0, TtsGot 0 InitOk,
           TtsFinished 0 (PlayFails ''boom''), Stop] (build True True ([], []))) = Some False \<and>
   map_option (last \<circ> scheduled)
     (run [Edit ''one'', Speak InitOk, Edit ''two'', Speak InitOk, TtsCheck 0, TtsGot 0 InitOk,
           TtsFinished 0 (PlayFails ''boom''), Stop] (build True True ([], []))) =
     Some (SetStatus ''TTS error.'') \<and>
   map_option playback_log
     (run [Edit ''one'', Speak InitOk, Edit ''two'', Speak InitOk, TtsCheck 0, TtsGot 0 InitOk,
           TtsFinished 0 (PlayFails ''boom''), Stop, TtsCheck 0, TtsGot 0 InitOk]
        (build True True ([], []))) =
     Some [PlayStart 0 ''one'', PlayEnd 0, PlayStart 0 ''two'']"
  by code_simp

text \<open>
  Claim C5. In a state that is not listening, not speaking and has no queued utterance,
  \<open>on_stop_button\<close> schedules the status \<^verbatim>\<open>Nothing to stop.\<close> and nothing else, so that
  this is the status shown after the next frame, and leaves the listening flag, the
  speaking flag, both stop events, both queues, the engine handle, the thread handle,
  the threads and the text of the document as they were.
\<close>

theorem stop_nothing_to_stop:
  assumes "\<not> is_listening s" and "\<not> is_speaking s" and "tts_queue s = []"
  shows "scheduled (on_stop_button s) = scheduled s @ [SetStatus ''Nothing to stop.''] \<and>
         status_label (frame (on_stop_button s)) = ''Nothing to stop.'' \<and>
         is_listening (on_stop_button s) = is_listening s \<and>
         is_speaking (on_stop_button s) = is_speaking s \<and>
         listen_stop_event (on_stop_button s) = listen_stop_event s \<and>
         tts_stop_event (on_stop_button s) = tts_stop_event s \<and>
         results_queue (on_stop_button s) = results_queue s \<and>
         tts_queue (on_stop_button s) = tts_queue s \<and>
         tts_engine (on_stop_button s) = tts_engine s \<and>
         tts_thread (on_stop_button s) = tts_thread s \<and>
         tts_threads (on_stop_button s) = tts_threads s \<and>
         listen_threads (on_stop_button s) = listen_threads s \<and>
         text_area (on_stop_button s) = text_area s"
proof -
  have e: "on_stop_button s = update_buttons (set_status ''Nothing to stop.'' s)"
    using assms by (simp add: on_stop_button_def Let_def)
  have sch: "scheduled (on_stop_button s) = scheduled s @ [SetStatus ''Nothing to stop.'']"
    by (simp add: e update_buttons_def set_status_def)
  from frame_last_status [OF sch] sch show ?thesis
    by (simp add: e update_buttons_def set_status_def)
qed

text \<open>The theorem at the state \<^verbatim>\<open>build\<close> returns.\<close>

theorem stop_nothing_to_stop_witness:
  "\<not> is_listening (build True True ([], [])) \<and>
   \<not> is_speaking (build True True ([], [])) \<and>
   tts_queue (build True True ([], [])) = [] \<and>
   scheduled (on_stop_button (build True True ([], []))) = [SetStatus ''Nothing to stop.''] \<and>
   status_label (frame (on_stop_button (build True True ([], [])))) = ''Nothing to stop.'' \<and>
   tts_engine (on_stop_button (build True True ([], []))) = Some Engine"
proof -
  have a: "\<not> is_listening (build True True ([], []))"
    and b: "\<not> is_speaking (build True True ([], []))"
    and c: "tts_queue (build True True ([], [])) = []"
    by (simp_all add: build_def update_buttons_def)
  show ?thesis using stop_nothing_to_stop [OF a b c] a b c
    by (simp add: build_def update_buttons_def)
qed

subsection \<open>Record\<close>

text \<open>
  Claim C6. In a state that is listening, \<open>on_record\<close> returns the state it was given:
  no field changes, so no capture thread is started, and the listening flag, the stop
  event, the scheduled status updates and the queues are what they were.
\<close>

theorem on_record_listening_noop: "is_listening s \<Longrightarrow> on_record s = s"
  by (simp add: on_record_def)

text \<open>The theorem at the state after one Record: a second Record changes nothing, and
  there is still one capture thread.\<close>

theorem on_record_listening_noop_witness:
  "is_listening (on_record (build True True ([], []))) \<and>
   on_record (on_record (build True True ([], []))) = on_record (build True True ([], [])) \<and>
   listen_threads (on_record (on_record (build True True ([], [])))) = [LsOpening]"
proof -
  have h: "is_listening (on_record (build True True ([], [])))"
    by (simp add: on_record_def build_def update_buttons_def set_status_def)
  have t: "listen_threads (on_record (build True True ([], []))) = [LsOpening]"
    by (simp add: on_record_def build_def update_buttons_def set_status_def)
  show ?thesis using h t on_record_listening_noop [OF h] by simp
qed

subsection \<open>The buttons\<close>

text \<open>
  Claim C9. After \<open>update_buttons\<close>, Record and Speak are disabled exactly when the
  application is listening, Stop is disabled exactly when it is neither listening nor
  speaking and no utterance is queued, and Save, Load and New are enabled.
\<close>

theorem update_buttons_table:
  "btn_record_disabled (update_buttons s) = is_listening s \<and>
   btn_speak_disabled (update_buttons s) = is_listening s \<and>
   btn_stop_disabled (update_buttons s) =
     (\<not> (is_listening s \<or> is_speaking s \<or> tts_queue s \<noteq> [])) \<and>
   btn_save_disabled (update_buttons s) = False \<and>
   btn_load_disabled (update_buttons s) = False \<and>
   btn_new_disabled (update_buttons s) = False"
  by (simp add: update_buttons_def)

text \<open>The theorem at the state after one Record: Record and Speak are disabled, Stop is
  enabled.\<close>

theorem update_buttons_table_witness:
  "btn_record_disabled (update_buttons (on_record (build True True ([], [])))) = True \<and>
   btn_speak_disabled (update_buttons (on_record (build True True ([], [])))) = True \<and>
   btn_stop_disabled (update_buttons (on_record (build True True ([], [])))) = False \<and>
   btn_save_disabled (update_buttons (on_record (build True True ([], [])))) = False"
  using update_buttons_table [of "on_record (build True True ([], []))"]
  by (simp add: on_record_def build_def update_buttons_def set_status_def)

subsection \<open>The poller\<close>

text \<open>
  Claim C4, as amended. One tick empties the transcript queue and appends, in arrival
  order, every chunk that is not empty, followed by one space unless the chunk already
  ends with a space; an empty chunk adds nothing. For the queue \<^verbatim>\<open>["hello", "world"]\<close>
  the document gains exactly \<^verbatim>\<open>hello world \<close>. A chunk that does not end with a space is
  appended with exactly one trailing space.
\<close>

theorem process_results_queue_appends:
  "results_queue (process_results_queue s) = [] \<and>
   text_area (process_results_queue s) =
     text_area s @
     concat (map (\<lambda>c. if c = [] \<or> endswith c '' '' then c else c @ '' '') (results_queue s)) \<and>
   (results_queue s = [''hello'', ''world''] \<longrightarrow>
      text_area (process_results_queue s) = text_area s @ ''hello world '') \<and>
   (\<forall>c\<in>set (results_queue s).
      c \<noteq> [] \<and> \<not> endswith c '' '' \<longrightarrow> single_space_terminated (c @ '' ''))"
  by (simp add: process_results_queue_def drain_results_concat single_space_after endswith_def)

text \<open>The theorem at the queue \<^verbatim>\<open>["hello", "world"]\<close> and an empty document.\<close>

theorem process_results_queue_appends_witness:
  "results_queue ((build True True ([], []))\<lparr>results_queue := [''hello'', ''world'']\<rparr>) =
     [''hello'', ''world''] \<and>
   text_area (process_results_queue
     ((build True True ([], []))\<lparr>results_queue := [''hello'', ''world'']\<rparr>)) = ''hello world '' \<and>
   single_space_terminated (''hello'' @ '' '')"
  using process_results_queue_appends
          [of "(build True True ([], []))\<lparr>results_queue := [''hello'', ''world'']\<rparr>"]
  by (simp add: build_def update_buttons_def endswith_def)

text \<open>
  Claim C4 as stated fails: a chunk that already ends with two spaces is appended as it
  is, so what the document gains does not end with exactly one trailing space.
\<close>

theorem process_results_queue_counterexample:
  "\<not> single_space_terminated
       (text_area (process_results_queue
          ((build True True ([], []))\<lparr>results_queue := [''hi  '']\<rparr>)))"
  by (simp add: process_results_queue_def build_def update_buttons_def endswith_def
        single_space_terminated_def)

text \<open>
  Claim C10. An empty chunk in the transcript queue is discarded, and the chunks around
  it are processed as usual. A tick over the chunks \<open>xs\<close>, the empty chunk and the
  chunks \<open>ys\<close> empties the queue and appends to the document what the chunks of \<open>xs\<close>
  add, directly followed by what the chunks of \<open>ys\<close> add: the empty chunk adds nothing,
  not even a space, and the tick ends in the state it ends in without it. For the queue
  \<^verbatim>\<open>["a", "", "b"]\<close> the document gains exactly \<^verbatim>\<open>a b \<close>; for a queue that holds only
  the empty chunk it gains nothing.
\<close>

theorem empty_chunk_discarded:
  "process_results_queue (s\<lparr>results_queue := xs @ [] # ys\<rparr>) =
     process_results_queue (s\<lparr>results_queue := xs @ ys\<rparr>) \<and>
   text_area (process_results_queue (s\<lparr>results_queue := [[]]\<rparr>)) = text_area s \<and>
   results_queue (process_results_queue (s\<lparr>results_queue := xs @ [] # ys\<rparr>)) = [] \<and>
   text_area (process_results_queue (s\<lparr>results_queue := xs @ [] # ys\<rparr>)) =
     text_area s @
     concat (map (\<lambda>c. if c = [] \<or> endswith c '' '' then c else c @ '' '') xs) @
     concat (map (\<lambda>c. if c = [] \<or> endswith c '' '' then c else c @ '' '') ys) \<and>
   text_area (process_results_queue (s\<lparr>results_queue := [''a'', [], ''b'']\<rparr>)) =
     text_area s @ ''a b ''"
  by (simp add: process_results_queue_def drain_results_skip_empty drain_results_concat
        endswith_def)

subsection \<open>Speak\<close>

text \<open>What \<open>on_speak\<close> does on a blank text, branch by branch.\<close>

lemma blank_speak_keep:
  assumes b: "strip (text_area s) = []"
  shows "tts_queue (on_speak r s) = tts_queue s \<and>
         tts_threads (on_speak r s) = tts_threads s \<and>
         tts_thread (on_speak r s) = tts_thread s \<and>
         tts_stop_event (on_speak r s) = tts_stop_event s \<and>
         is_speaking (on_speak r s) = is_speaking s \<and>
         text_area (on_speak r s) = text_area s"
  using b by (cases r) (simp_all add: on_speak_def error_popup_def set_status_def)

lemma blank_speak_report:
  assumes b: "strip (text_area s) = []" and m: "pyttsx3_mod s"
    and g: "tts_engine s \<noteq> None \<or> r = InitOk"
  shows "scheduled (on_speak r s) = scheduled s @ [SetStatus ''Nothing to speak.''] \<and>
         status_label (frame (on_speak r s)) = ''Nothing to speak.'' \<and>
         tts_engine (on_speak r s) = Some Engine \<and>
         popups (on_speak r s) = popups s"
proof -
  have e: "on_speak r s = set_status ''Nothing to speak.'' (s\<lparr>tts_engine := Some Engine\<rparr>)"
  proof (cases "tts_engine s")
    case None
    with g have "r = InitOk" by simp
    with None b m show ?thesis by (simp add: on_speak_def)
  next
    case (Some x)
    then have x: "tts_engine s = Some Engine" by (cases x) simp
    have "s\<lparr>tts_engine := tts_engine s\<rparr> = s" by simp
    with x have eq: "s\<lparr>tts_engine := Some Engine\<rparr> = s" by simp
    from x b m show ?thesis by (simp add: on_speak_def eq)
  qed
  have sch: "scheduled (on_speak r s) = scheduled s @ [SetStatus ''Nothing to speak.'']"
    by (simp add: e set_status_def)
  from frame_last_status [OF sch] sch show ?thesis by (simp add: e set_status_def)
qed

lemma blank_speak_no_module:
  assumes "\<not> pyttsx3_mod s"
  shows "popups (on_speak r s) =
           popups s @ [(''Missing Dependency'', ''pyttsx3 is not available. Please install it.'')] \<and>
         scheduled (on_speak r s) = scheduled s \<and>
         tts_engine (on_speak r s) = tts_engine s"
  using assms by (simp add: on_speak_def error_popup_def)

lemma blank_speak_init_fails:
  assumes "pyttsx3_mod s" and "tts_engine s = None"
  shows "popups (on_speak (InitFails e) s) =
           popups s @ [(''TTS Error'', ''Engine init failed: '' @ e)] \<and>
         scheduled (on_speak (InitFails e) s) = scheduled s \<and>
         tts_engine (on_speak (InitFails e) s) = None"
  using assms by (simp add: on_speak_def error_popup_def)

text \<open>
  Claim C7, as amended. When the text of the document is blank or only whitespace,
  \<open>on_speak\<close> puts nothing on the utterance queue, starts no worker, and leaves the stop
  event, the speaking flag and the text as they are, whatever else holds. The handler
  tests the module and the engine before it looks at the text:
  \<^item> without the module \<^verbatim>\<open>pyttsx3\<close> it opens the dialog \<^verbatim>\<open>Missing Dependency\<close>, reports no
    status and leaves the engine handle as it is;
  \<^item> with the module, an absent engine handle and a failing \<^verbatim>\<open>pyttsx3.init()\<close>, it opens
    the dialog \<^verbatim>\<open>TTS Error\<close>, reports no status and the handle stays absent;
  \<^item> otherwise (the handle is present, or absent and created again, which happens
    before the text is tested) the handle is present afterwards, no dialog opens, and
    the only status scheduled, hence the status shown after the next frame, is
    \<^verbatim>\<open>Nothing to speak.\<close>.
\<close>

theorem speak_blank:
  assumes "\<forall>c\<in>set (text_area s). isspace c"
  shows "tts_queue (on_speak r s) = tts_queue s \<and>
         tts_threads (on_speak r s) = tts_threads s \<and>
         tts_thread (on_speak r s) = tts_thread s \<and>
         tts_stop_event (on_speak r s) = tts_stop_event s \<and>
         is_speaking (on_speak r s) = is_speaking s \<and>
         text_area (on_speak r s) = text_area s \<and>
         (pyttsx3_mod s \<and> (tts_engine s \<noteq> None \<or> r = InitOk) \<longrightarrow>
            scheduled (on_speak r s) = scheduled s @ [SetStatus ''Nothing to speak.''] \<and>
            status_label (frame (on_speak r s)) = ''Nothing to speak.'' \<and>
            tts_engine (on_speak r s) = Some Engine \<and>
            popups (on_speak r s) = popups s) \<and>
         (\<not> pyttsx3_mod s \<longrightarrow>
            popups (on_speak r s) =
              popups s @ [(''Missing Dependency'', ''pyttsx3 is not available. Please install it.'')] \<and>
            scheduled (on_speak r s) = scheduled s \<and>
            tts_engine (on_speak r s) = tts_engine s) \<and>
         (\<forall>e. pyttsx3_mod s \<and> tts_engine s = None \<and> r = InitFails e \<longrightarrow>
            popups (on_speak r s) = popups s @ [(''TTS Error'', ''Engine init failed: '' @ e)] \<and>
            scheduled (on_speak r s) = scheduled s \<and>
            tts_engine (on_speak r s) = None)"
proof -
  from assms have b: "strip (text_area s) = []" by (simp add: strip_blank)
  have c1: "pyttsx3_mod s \<and> (tts_engine s \<noteq> None \<or> r = InitOk) \<longrightarrow>
            scheduled (on_speak r s) = scheduled s @ [SetStatus ''Nothing to speak.''] \<and>
            status_label (frame (on_speak r s)) = ''Nothing to speak.'' \<and>
            tts_engine (on_speak r s) = Some Engine \<and>
            popups (on_speak r s) = popups s"
    using blank_speak_report [OF b] by blast
  have c2: "\<not> pyttsx3_mod s \<longrightarrow>
            popups (on_speak r s) =
              popups s @ [(''Missing Dependency'', ''pyttsx3 is not available. Please install it.'')] \<and>
            scheduled (on_speak r s) = scheduled s \<and>
            tts_engine (on_speak r s) = tts_engine s"
    using blank_speak_no_module by blast
  have c3: "\<forall>e. pyttsx3_mod s \<and> tts_engine s = None \<and> r = InitFails e \<longrightarrow>
            popups (on_speak r s) = popups s @ [(''TTS Error'', ''Engine init failed: '' @ e)] \<and>
            scheduled (on_speak r s) = scheduled s \<and>
            tts_engine (on_speak r s) = None"
  proof (intro allI impI)
    fix e
    assume "pyttsx3_mod s \<and> tts_engine s = None \<and> r = InitFails e"
    then show "popups (on_speak r s) = popups s @ [(''TTS Error'', ''Engine init failed: '' @ e)] \<and>
            scheduled (on_speak r s) = scheduled s \<and>
            tts_engine (on_speak r s) = None"
      using blank_speak_init_fails [of s e] by simp
  qed
  from blank_speak_keep [OF b] c1 c2 c3 show ?thesis by simp
qed

text \<open>The theorem at the state after Speak of the text \<^verbatim>\<open>one\<close> and Stop, which has no
  engine handle, with a document of two spaces: Speak creates the engine again and
  reports \<^verbatim>\<open>Nothing to speak.\<close>, or, when the engine cannot be created, opens the dialog
  and schedules nothing.\<close>

theorem speak_blank_witness:
  "text_area ((on_stop_button (on_speak InitOk ((build True True ([], []))\<lparr>text_area := ''one''\<rparr>)))\<lparr>text_area := ''  ''\<rparr>) = ''  '' \<and>
   isspace CHR '' '' \<and>
   pyttsx3_mod ((on_stop_button (on_speak InitOk ((build True True ([], []))\<lparr>text_area := ''one''\<rparr>)))\<lparr>text_area := ''  ''\<rparr>) \<and>
   tts_engine ((on_stop_button (on_speak InitOk ((build True True ([], []))\<lparr>text_area := ''one''\<rparr>)))\<lparr>text_area := ''  ''\<rparr>) = None \<and>
   tts_queue (on_speak InitOk ((on_stop_button (on_speak InitOk ((build True True ([], []))\<lparr>text_area := ''one''\<rparr>)))\<lparr>text_area := ''  ''\<rparr>)) = [] \<and>
   tts_engine (on_speak InitOk ((on_stop_button (on_speak InitOk ((build True True ([], []))\<lparr>text_area := ''one''\<rparr>)))\<lparr>text_area := ''  ''\<rparr>)) = Some Engine \<and>
   status_label (frame (on_speak InitOk ((on_stop_button (on_speak InitOk ((build True True ([], []))\<lparr>text_area := ''one''\<rparr>)))\<lparr>text_area := ''  ''\<rparr>))) = ''Nothing to speak.'' \<and>
   popups (on_speak (InitFails ''boom'') ((on_stop_button (on_speak InitOk ((build True True ([], []))\<lparr>text_area := ''one''\<rparr>)))\<lparr>text_area := ''  ''\<rparr>)) = [(''TTS Error'', ''Engine init failed: boom'')] \<and>
   tts_engine (on_speak (InitFails ''boom'') ((on_stop_button (on_speak InitOk ((build True True ([], []))\<lparr>text_area := ''one''\<rparr>)))\<lparr>text_area := ''  ''\<rparr>)) = None \<and>
   scheduled (on_speak (InitFails ''boom'') ((on_stop_button (on_speak InitOk ((build True True ([], []))\<lparr>text_area := ''one''\<rparr>)))\<lparr>text_area := ''  ''\<rparr>)) = scheduled ((on_stop_button (on_speak InitOk ((build True True ([], []))\<lparr>text_area := ''one''\<rparr>)))\<lparr>text_area := ''  ''\<rparr>)"
proof -
  have t: "text_area ((on_stop_button (on_speak InitOk ((build True True ([], []))\<lparr>text_area := ''one''\<rparr>)))\<lparr>text_area := ''  ''\<rparr>) = ''  ''" by simp
  have h: "\<forall>c\<in>set (text_area ((on_stop_button (on_speak InitOk ((build True True ([], []))\<lparr>text_area := ''one''\<rparr>)))\<lparr>text_area := ''  ''\<rparr>)). isspace c"
    by (simp add: isspace_def)
  have p: "pyttsx3_mod ((on_stop_button (on_speak InitOk ((build True True ([], []))\<lparr>text_area := ''one''\<rparr>)))\<lparr>text_area := ''  ''\<rparr>)"
    and g: "tts_engine ((on_stop_button (on_speak InitOk ((build True True ([], []))\<lparr>text_area := ''one''\<rparr>)))\<lparr>text_area := ''  ''\<rparr>) = None"
    and q: "tts_queue ((on_stop_button (on_speak InitOk ((build True True ([], []))\<lparr>text_area := ''one''\<rparr>)))\<lparr>text_area := ''  ''\<rparr>) = []"
    and u: "popups ((on_stop_button (on_speak InitOk ((build True True ([], []))\<lparr>text_area := ''one''\<rparr>)))\<lparr>text_area := ''  ''\<rparr>) = []"
    by (simp_all add: on_stop_button_def on_speak_def build_def update_buttons_def
          set_status_def clear_tts_queue_def clear_loop_Nil strip_def isspace_def
          tts_thread_alive_def Let_def)
  show ?thesis
    using t p g q u speak_blank [OF h, of InitOk] speak_blank [OF h, of "InitFails ''boom''"]
    by (simp add: isspace_def)
qed

text \<open>
  Claim C7 as stated fails. Without the module \<^verbatim>\<open>pyttsx3\<close>, Speak on the empty document
  opens the dialog \<^verbatim>\<open>Missing Dependency\<close> and returns: no status is scheduled, and the
  status shown after the next frame is still \<^verbatim>\<open>Ready\<close>.
\<close>

theorem speak_blank_counterexample:
  "text_area (build True False ([], [])) = [] \<and>
   scheduled (on_speak InitOk (build True False ([], []))) = [] \<and>
   status_label (frame (on_speak InitOk (build True False ([], [])))) = ''Ready'' \<and>
   popups (on_speak InitOk (build True False ([], []))) =
     [(''Missing Dependency'', ''pyttsx3 is not available. Please install it.'')]"
  by (simp add: on_speak_def build_def update_buttons_def error_popup_def frame_def)

subsection \<open>Saving\<close>

lemma split_acc_no_sep: "c \<notin> set xs \<Longrightarrow> split_acc c acc xs = [rev acc @ xs]"
  by (induction xs arbitrary: acc) auto

lemma endswith_append_self: "endswith (n @ suf) suf"
  by (simp add: endswith_def)

lemma save_name_endswith: "endswith (save_name d entered) ''.txt''"
  by (simp add: save_name_def Let_def endswith_append_self)

lemma endswith_txt_length: "endswith n ''.txt'' \<Longrightarrow> 4 \<le> length n"
  by (simp add: endswith_def)

lemma parse_path_plain:
  assumes "CHR ''/'' \<notin> set n" and "endswith n ''.txt''"
  shows "parse_path n = ([], [n])"
proof -
  from assms(2) have l: "4 \<le> length n" by (rule endswith_txt_length)
  then have ne: "n \<noteq> []" "n \<noteq> ''.''" by auto
  from l obtain x xs where n: "n = x # xs" by (cases n) auto
  with assms(1) have "x \<noteq> CHR ''/''" by auto
  with n have r: "path_root n = []" by (simp add: path_root_def)
  from assms(1) have "split_on CHR ''/'' n = [n]"
    by (simp add: split_on_def split_acc_no_sep)
  with ne r show ?thesis by (simp add: parse_path_def)
qed

lemma default_name_endswith: "endswith (default_name ts) ''.txt''"
  by (simp add: default_name_def endswith_def)

text \<open>
  Claim C8, as amended. A blank or whitespace-only entered name falls back to the
  default name \<^verbatim>\<open>note_<time>.txt\<close>. An entered name that, stripped of surrounding
  whitespace, does not end with \<^verbatim>\<open>.txt\<close> gets the suffix once; one that does is kept. The
  resulting name always ends with \<^verbatim>\<open>.txt\<close>. The file is written at
  \<^verbatim>\<open>notes_dir / name\<close>: when the name holds no separator \<^verbatim>\<open>/\<close>, which is so for the default
  name, this is the entry of that name in the notes directory itself.
\<close>

theorem save_name_and_path:
  "((\<forall>c\<in>set entered. isspace c) \<longrightarrow> save_name (default_name ts) entered = default_name ts) \<and>
   (strip entered \<noteq> [] \<and> \<not> endswith (strip entered) ''.txt'' \<longrightarrow>
      save_name dflt entered = strip entered @ ''.txt'') \<and>
   (strip entered \<noteq> [] \<and> endswith (strip entered) ''.txt'' \<longrightarrow>
      save_name dflt entered = strip entered) \<and>
   endswith (save_name dflt entered) ''.txt'' \<and>
   (CHR ''/'' \<notin> set (save_name dflt entered) \<longrightarrow>
      files (do_save dflt entered WriteOk s) =
        ((fst (notes_dir s), snd (notes_dir s) @ [save_name dflt entered]), text_area s)
          # files s) \<and>
   ((\<forall>c\<in>set entered. isspace c) \<and> CHR ''/'' \<notin> set ts \<longrightarrow>
      files (do_save (default_name ts) entered WriteOk s) =
        ((fst (notes_dir s), snd (notes_dir s) @ [default_name ts]), text_area s) # files s)"
proof -
  have a: "save_name (default_name ts) entered = default_name ts"
    if "\<forall>c\<in>set entered. isspace c"
    using that default_name_endswith [of ts] by (simp add: save_name_def strip_blank)
  have e: "files (do_save d entered WriteOk s) =
        ((fst (notes_dir s), snd (notes_dir s) @ [save_name d entered]), text_area s) # files s"
    if "CHR ''/'' \<notin> set (save_name d entered)" for d
    using parse_path_plain [OF that save_name_endswith]
    by (simp add: do_save_def path_join_def set_status_def Let_def)
  have f: "files (do_save (default_name ts) entered WriteOk s) =
        ((fst (notes_dir s), snd (notes_dir s) @ [default_name ts]), text_area s) # files s"
    if b: "\<forall>c\<in>set entered. isspace c" and n: "CHR ''/'' \<notin> set ts"
  proof -
    from n have "CHR ''/'' \<notin> set (default_name ts)" by (simp add: default_name_def)
    with a [OF b] e [of "default_name ts"] show ?thesis by simp
  qed
  from a e [of dflt] f save_name_endswith show ?thesis
    by (simp add: save_name_def)
qed

text \<open>The theorem at a blank name, at the name \<^verbatim>\<open> memo \<close> and at the name \<^verbatim>\<open>a.txt\<close>, with
  the notes directory \<^verbatim>\<open>/app/notes\<close>.\<close>

theorem save_name_and_path_witness:
  "isspace CHR '' '' \<and>
   save_name (default_name ''20261103_120000'') ''  '' = ''note_20261103_120000.txt'' \<and>
   strip '' memo '' \<noteq> [] \<and> \<not> endswith (strip '' memo '') ''.txt'' \<and>
   save_name (default_name ''20261103_120000'') '' memo '' = ''memo.txt'' \<and>
   strip ''a.txt'' \<noteq> [] \<and> endswith (strip ''a.txt'') ''.txt'' \<and>
   save_name (default_name ''20261103_120000'') ''a.txt'' = ''a.txt'' \<and>
   CHR ''/'' \<notin> set (save_name (default_name ''20261103_120000'') '' memo '') \<and>
   files (do_save (default_name ''20261103_120000'') '' memo '' WriteOk
            ((build True True (''/'', [''app'', ''notes'']))\<lparr>text_area := ''hi''\<rparr>)) =
     [((''/'', [''app'', ''notes'', ''memo.txt'']), ''hi'')] \<and>
   CHR ''/'' \<notin> set ''20261103_120000'' \<and>
   files (do_save (default_name ''20261103_120000'') ''  '' WriteOk
            ((build True True (''/'', [''app'', ''notes'']))\<lparr>text_area := ''hi''\<rparr>)) =
     [((''/'', [''app'', ''notes'', ''note_20261103_120000.txt'']), ''hi'')]"
proof -
  have s1: "strip '' memo '' = ''memo''" and s2: "strip ''a.txt'' = ''a.txt''"
    and s3: "strip ''  '' = []"
    by (simp_all add: strip_def isspace_def)
  have n1: "save_name (default_name ''20261103_120000'') '' memo '' = ''memo.txt''"
    by (simp add: save_name_def s1 endswith_def)
  have b: "\<forall>c\<in>set ''  ''. isspace c" by (simp add: isspace_def)
  have st: "notes_dir ((build True True (''/'', [''app'', ''notes'']))\<lparr>text_area := ''hi''\<rparr>) =
              (''/'', [''app'', ''notes''])"
    "text_area ((build True True (''/'', [''app'', ''notes'']))\<lparr>text_area := ''hi''\<rparr>) = ''hi''"
    "files ((build True True (''/'', [''app'', ''notes'']))\<lparr>text_area := ''hi''\<rparr>) = []"
    by (simp_all add: build_def update_buttons_def)
  show ?thesis
    using save_name_and_path [of "''  ''" "''20261103_120000''" "default_name ''20261103_120000''"
            "(build True True (''/'', [''app'', ''notes'']))\<lparr>text_area := ''hi''\<rparr>"]
          save_name_and_path [of "'' memo ''" "''20261103_120000''" "default_name ''20261103_120000''"
            "(build True True (''/'', [''app'', ''notes'']))\<lparr>text_area := ''hi''\<rparr>"]
          save_name_and_path [of "''a.txt''" "''20261103_120000''" "default_name ''20261103_120000''"
            "(build True True (''/'', [''app'', ''notes'']))\<lparr>text_area := ''hi''\<rparr>"]
    by (simp add: s1 s2 s3 n1 b st endswith_def default_name_def isspace_def)
qed

text \<open>
  Claim C8 as stated fails: the entered name \<^verbatim>\<open>/tmp/x\<close> has a root, so pathlib's join
  discards the notes directory, and the file is written at \<^verbatim>\<open>/tmp/x.txt\<close>, which does
  not lie under \<^verbatim>\<open>/app/notes\<close>.
\<close>

theorem save_outside_notes_dir_counterexample:
  "files (do_save (default_name ''20261103_120000'') ''/tmp/x'' WriteOk
            ((build True True (''/'', [''app'', ''notes'']))\<lparr>text_area := ''hi''\<rparr>)) =
     [((''/'', [''tmp'', ''x.txt'']), ''hi'')] \<and>
   \<not> prefix (snd (notes_dir ((build True True (''/'', [''app'', ''notes'']))\<lparr>text_area := ''hi''\<rparr>)))
       [''tmp'', ''x.txt'']"
  by (simp add: do_save_def save_name_def strip_def isspace_def endswith_def path_join_def
        parse_path_def path_root_def split_on_def build_def update_buttons_def set_status_def
        Let_def)

subsection \<open>The speech worker\<close>

text \<open>
  Every step other than Stop keeps \<open>single_worker\<close>: in an execution without Stop there
  is at most one thread running \<^verbatim>\<open>_tts_worker\<close>, and at most one playback call in
  flight.
\<close>

lemma single_worker_ui:
  "single_worker s \<Longrightarrow> single_worker (update_buttons s)"
  "single_worker s \<Longrightarrow> single_worker (set_status t s)"
  "single_worker s \<Longrightarrow> single_worker (schedule_update_buttons s)"
  "single_worker s \<Longrightarrow> single_worker (error_popup a b s)"
  by (simp_all add: single_worker_def update_buttons_def set_status_def
        schedule_update_buttons_def error_popup_def)

lemma single_worker_frame: "single_worker s \<Longrightarrow> single_worker (frame s)"
proof -
  have "single_worker s \<Longrightarrow> single_worker (fold run_event es s)" for es s
  proof (induction es arbitrary: s)
    case Nil
    then show ?case by simp
  next
    case (Cons e es)
    then show ?case by (cases e) (simp_all add: single_worker_def update_buttons_def)
  qed
  moreover assume "single_worker s"
  then have "single_worker (s\<lparr>scheduled := []\<rparr>)" by (simp add: single_worker_def)
  ultimately show ?thesis by (simp add: frame_def)
qed

lemma single_worker_on_speak: "single_worker s \<Longrightarrow> single_worker (on_speak r s)"
  by (cases r)
     (auto simp: single_worker_def on_speak_def update_buttons_def set_status_def
        error_popup_def tts_thread_alive_def Let_def)

lemma single_worker_on_record: "single_worker s \<Longrightarrow> single_worker (on_record s)"
  by (auto simp: single_worker_def on_record_def update_buttons_def set_status_def
        error_popup_def Let_def)



lemma single_worker_tts:
  "single_worker s \<Longrightarrow> tts_check i s = Some s' \<Longrightarrow> single_worker s'"
  "single_worker s \<Longrightarrow> tts_timeout i s = Some s' \<Longrightarrow> single_worker s'"
  "single_worker s \<Longrightarrow> tts_finished i p s = Some s' \<Longrightarrow> single_worker s'"
  by (auto simp: single_worker_def tts_check_def tts_timeout_def tts_finished_def tts_at_def
        set_tts_pc_def set_status_def schedule_update_buttons_def error_popup_def Let_def
        split: if_splits tts_pc.splits play_result.splits)

lemma single_worker_tts_got:
  "single_worker s \<Longrightarrow> tts_got i r s = Some s' \<Longrightarrow> single_worker s'"
  by (cases r)
     (auto simp: single_worker_def tts_got_def tts_at_def
        set_tts_pc_def set_status_def schedule_update_buttons_def error_popup_def Let_def
        split: if_splits list.splits)

lemma single_worker_listen:
  "single_worker s \<Longrightarrow> listen_open i e s = Some s' \<Longrightarrow> single_worker s'"
  "single_worker s \<Longrightarrow> listen_check i s = Some s' \<Longrightarrow> single_worker s'"
  "single_worker s \<Longrightarrow> listen_capture i c s = Some s' \<Longrightarrow> single_worker s'"
  "single_worker s \<Longrightarrow> listen_recognize i g s = Some s' \<Longrightarrow> single_worker s'"
  by (auto simp: single_worker_def listen_open_def listen_check_def listen_capture_def
        listen_recognize_def listen_abort_def listen_finally_def set_listen_pc_def
        set_status_def schedule_update_buttons_def error_popup_def Let_def
        split: if_splits option.splits capture_result.splits recognize_result.splits
          listen_error.splits)

lemma single_worker_fields:
  "tts_stop_event s' = tts_stop_event s \<Longrightarrow> tts_threads s' = tts_threads s \<Longrightarrow>
   tts_thread s' = tts_thread s \<Longrightarrow> single_worker s \<Longrightarrow> single_worker s'"
  by (simp add: single_worker_def)

lemma single_worker_exec:
  assumes "single_worker s" and "a \<noteq> Stop" and "exec a s = Some s'"
  shows "single_worker s'"
proof (cases a)
  case Record
  with assms show ?thesis by (auto simp: single_worker_on_record split: if_splits)
next
  case Stop
  with assms show ?thesis by simp
next
  case (Speak r)
  with assms show ?thesis by (auto simp: single_worker_on_speak split: if_splits)
next
  case New
  with assms have "s' = on_new s" by (simp split: if_splits)
  with assms(1) show ?thesis by (simp add: on_new_def set_status_def single_worker_def)
next
  case (Edit t)
  with assms have "s' = s\<lparr>text_area := t\<rparr>" by simp
  with assms(1) show ?thesis by (simp add: single_worker_def)
next
  case (Save ts r)
  with assms have "s' = on_save ts r s" by (simp split: if_splits)
  with assms(1) show ?thesis
    by (auto simp: on_save_def do_save_def set_status_def error_popup_def single_worker_def
          Let_def split: save_outcome.splits write_result.splits)
next
  case Frame
  with assms show ?thesis by (auto simp: single_worker_frame)
next
  case Tick
  with assms have "s' = process_results_queue s" by simp
  with assms(1) show ?thesis by (simp add: process_results_queue_def single_worker_def)
next
  case (TtsCheck i)
  with assms show ?thesis by (auto intro: single_worker_tts)
next
  case (TtsTimeout i)
  with assms show ?thesis by (auto intro: single_worker_tts)
next
  case (TtsGot i r)
  with assms show ?thesis by (auto intro: single_worker_tts_got)
next
  case (TtsFinished i r)
  with assms show ?thesis by (auto intro: single_worker_tts)
next
  case (ListenOpen i r)
  with assms show ?thesis by (auto intro: single_worker_listen)
next
  case (ListenCheck i)
  with assms show ?thesis by (auto intro: single_worker_listen)
next
  case (ListenCapture i r)
  with assms show ?thesis by (auto intro: single_worker_listen)
next
  case (ListenRecognize i r)
  with assms show ?thesis by (auto intro: single_worker_listen)
qed

lemma single_worker_run:
  "single_worker s \<Longrightarrow> Stop \<notin> set tr \<Longrightarrow> run tr s = Some s' \<Longrightarrow> single_worker s'"
proof (induction tr arbitrary: s)
  case Nil
  then show ?case by simp
next
  case (Cons a tr)
  from Cons.prems(3) obtain s1 where e: "exec a s = Some s1" and r: "run tr s1 = Some s'"
    by (auto split: option.splits)
  from Cons.prems(2) have "a \<noteq> Stop" and n: "Stop \<notin> set tr" by auto
  with Cons.prems(1) e have sw: "single_worker s1" by (blast intro: single_worker_exec)
  from sw n r show ?case by (rule Cons.IH)
qed

lemma single_worker_counts:
  "single_worker s \<Longrightarrow> live_workers s \<le> 1 \<and> playing_workers s \<le> 1"
proof -
  assume "single_worker s"
  then have "length (tts_threads s) \<le> 1" by (auto simp: single_worker_def)
  moreover have "live_workers s \<le> length (tts_threads s)"
    "playing_workers s \<le> length (tts_threads s)"
    by (simp_all add: live_workers_def playing_workers_def)
  ultimately show ?thesis by linarith
qed

lemma single_worker_build: "single_worker (build sr py d)"
  by (simp add: single_worker_def build_def update_buttons_def)


text \<open>
  A worker that finds the queue empty goes back to the loop test, and the loop test
  lets it return exactly when the stop event is set.
\<close>

lemma tts_timeout_stays:
  "tts_timeout i s = Some s' \<Longrightarrow> tts_threads s' ! i = TtsLoopHead"
  by (auto simp: tts_timeout_def tts_at_def set_tts_pc_def set_status_def
        schedule_update_buttons_def split: if_splits)

lemma tts_check_exits_iff:
  "tts_check i s = Some s' \<Longrightarrow>
     tts_threads s' ! i = (if tts_stop_event s then TtsDone else TtsWaiting)"
  by (auto simp: tts_check_def tts_at_def set_tts_pc_def set_status_def
        schedule_update_buttons_def split: if_splits)

text \<open>
  Claim C3. The claim says that at most one thread runs \<^verbatim>\<open>_tts_worker\<close> at any time,
  whatever the order of Speak and Stop. \<open>on_speak\<close> starts a thread only when
  \<open>tts_thread\<close> is unset or not alive, and without Stop this keeps one worker
  (\<open>single_worker_run\<close>). But \<open>on_stop_button\<close> unsets \<open>tts_thread\<close> while the
  worker may still be inside its playback call, and the next \<open>on_speak\<close> clears the stop
  event, which both threads share, and starts a second thread. When the first worker
  comes back to its loop test, the event is clear again and it goes on. After
  Speak, the worker taking the text, Stop, Speak, the end of the first playback and the
  first worker's loop test, two threads run the loop and the stop event is clear.
\<close>

theorem two_live_workers:
  "map_option tts_threads
     (run [Edit ''one'', Speak InitOk, TtsCheck 0, TtsGot 0 InitOk, Stop, Speak InitOk,
           TtsFinished 0 PlayOk, TtsCheck 0] (build True True ([], []))) =
     Some [TtsWaiting, TtsLoopHead] \<and>
   map_option live_workers
     (run [Edit ''one'', Speak InitOk, TtsCheck 0, TtsGot 0 InitOk, Stop, Speak InitOk,
           TtsFinished 0 PlayOk, TtsCheck 0] (build True True ([], []))) = Some 2 \<and>
   map_option tts_stop_event
     (run [Edit ''one'', Speak InitOk, TtsCheck 0, TtsGot 0 InitOk, Stop, Speak InitOk,
           TtsFinished 0 PlayOk, TtsCheck 0] (build True True ([], []))) = Some False"
  by code_simp

text \<open>
  Claim C1. The claim says that no two playback calls overlap. In the execution above,
  continued by one more Speak, the first worker takes the text \<^verbatim>\<open>two\<close> and enters its
  playback call, and the second worker takes the text \<^verbatim>\<open>three\<close> and enters its own
  before the first has returned: the log of engine calls holds the start of \<^verbatim>\<open>two\<close> by
  thread 0 and the start of \<^verbatim>\<open>three\<close> by thread 1 with no end between them, and both
  threads are inside a playback call.
\<close>

theorem overlapping_playback:
  "map_option playback_log
     (run [Edit ''one'', Speak InitOk, TtsCheck 0, TtsGot 0 InitOk, Stop,
           Edit ''two'', Speak InitOk, TtsFinished 0 PlayOk, TtsCheck 0,
           Edit ''three'', Speak InitOk, TtsGot 0 InitOk, TtsCheck 1, TtsGot 1 InitOk]
        (build True True ([], []))) =
     Some [PlayStart 0 ''one'', PlayEnd 0, PlayStart 0 ''two'', PlayStart 1 ''three''] \<and>
   map_option tts_threads
     (run [Edit ''one'', Speak InitOk, TtsCheck 0, TtsGot 0 InitOk, Stop,
           Edit ''two'', Speak InitOk, TtsFinished 0 PlayOk, TtsCheck 0,
           Edit ''three'', Speak InitOk, TtsGot 0 InitOk, TtsCheck 1, TtsGot 1 InitOk]
        (build True True ([], []))) =
     Some [TtsPlaying ''two'', TtsPlaying ''three''] \<and>
   map_option playing_workers
     (run [Edit ''one'', Speak InitOk, TtsCheck 0, TtsGot 0 InitOk, Stop,
           Edit ''two'', Speak InitOk, TtsFinished 0 PlayOk, TtsCheck 0,
           Edit ''three'', Speak InitOk, TtsGot 0 InitOk, TtsCheck 1, TtsGot 1 InitOk]
        (build True True ([], []))) = Some 2"
  by code_simp

end
